theory Spec2Isabelle
  imports Main
begin

section \<open>Python values and exceptions\<close>

text \<open>
  The server of \<^verbatim>\<open>src/polymarket_mcp/server.py\<close> works on values that come out of
  \<^verbatim>\<open>json.loads\<close> and \<^verbatim>\<open>resp.json()\<close>: \<^verbatim>\<open>None\<close>, booleans, integers, floats, strings,
  lists and dictionaries with string keys. A dictionary is an association list in
  insertion order (keys distinct in a dictionary that Python built); a float is
  identified by its \<^verbatim>\<open>repr\<close>, which Python makes unique for each float.
\<close>

datatype json =
    JNull
  | JBool bool
  | JInt int
  | JFloat string
  | JStr string
  | JList "json list"
  | JDict "(string \<times> json) list"

text \<open>
  An exception is its class and the text that \<^verbatim>\<open>str(e)\<close> gives. \<open>LibraryError\<close> stands
  for whatever the libraries raise on their own (\<^verbatim>\<open>requests\<close>, \<^verbatim>\<open>httpx\<close>, \<^verbatim>\<open>json\<close>); all
  classes here derive from \<^verbatim>\<open>Exception\<close>.
\<close>

datatype exc_class = AttributeError | IndexError | KeyError | TypeError | HTTPError | LibraryError

datatype exception = Exception exc_class string

fun str_exc :: "exception \<Rightarrow> string" where
  "str_exc (Exception c msg) = msg"

definition sq :: string where
  "sq = [CHR 0x27]"

definition nl :: string where
  "nl = [CHR 0x0A]"

fun type_name :: "json \<Rightarrow> string" where
  "type_name JNull = ''NoneType''"
| "type_name (JBool b) = ''bool''"
| "type_name (JInt i) = ''int''"
| "type_name (JFloat f) = ''float''"
| "type_name (JStr s) = ''str''"
| "type_name (JList xs) = ''list''"
| "type_name (JDict kvs) = ''dict''"

text \<open>Truth value of an object, as \<^verbatim>\<open>not x\<close> and \<^verbatim>\<open>if x\<close> test it.\<close>

fun truthy :: "json \<Rightarrow> bool" where
  "truthy JNull = False"
| "truthy (JBool b) = b"
| "truthy (JInt i) = (i \<noteq> 0)"
| "truthy (JFloat f) = (f \<noteq> ''0.0'' \<and> f \<noteq> ''-0.0'')"
| "truthy (JStr s) = (s \<noteq> [])"
| "truthy (JList xs) = (xs \<noteq> [])"
| "truthy (JDict kvs) = (kvs \<noteq> [])"

fun is_dict :: "json \<Rightarrow> bool" where
  "is_dict (JDict kvs) = True"
| "is_dict v = False"

fun str_nat :: "nat \<Rightarrow> string" where
  "str_nat n =
     (if n < 10 then [char_of (48 + n)]
      else str_nat (n div 10) @ [char_of (48 + n mod 10)])"

text \<open>
  \<^verbatim>\<open>obj.get(key, default)\<close>: only a dictionary has the method; on any other object
  the attribute lookup raises.
\<close>

fun attr_get :: "json \<Rightarrow> string \<Rightarrow> json \<Rightarrow> exception + json" where
  "attr_get (JDict kvs) key dflt =
     Inr (case map_of kvs key of Some v \<Rightarrow> v | None \<Rightarrow> dflt)"
| "attr_get obj key dflt =
     Inl (Exception AttributeError
       (sq @ type_name obj @ sq @ '' object has no attribute '' @ sq @ ''get'' @ sq))"

text \<open>
  \<^verbatim>\<open>obj[key]\<close> with a string key. The keys the server uses are plain identifiers, whose
  \<^verbatim>\<open>repr\<close> (the text of a \<^verbatim>\<open>KeyError\<close>) is the key between single quotes.
\<close>

fun getitem_key :: "json \<Rightarrow> string \<Rightarrow> exception + json" where
  "getitem_key (JDict kvs) key =
     (case map_of kvs key of
        Some v \<Rightarrow> Inr v
      | None \<Rightarrow> Inl (Exception KeyError (sq @ key @ sq)))"
| "getitem_key (JList xs) key =
     Inl (Exception TypeError ''list indices must be integers or slices, not str'')"
| "getitem_key (JStr s) key =
     Inl (Exception TypeError (''string indices must be integers, not '' @ sq @ ''str'' @ sq))"
| "getitem_key obj key =
     Inl (Exception TypeError (sq @ type_name obj @ sq @ '' object is not subscriptable''))"

text \<open>
  \<^verbatim>\<open>obj[i]\<close> with an index \<open>i \<ge> 0\<close> (the server only uses \<^verbatim>\<open>0\<close> and the values of a
  \<^verbatim>\<open>range\<close>). A dictionary from JSON has string keys only, so an integer key is
  never found.
\<close>

fun getitem_index :: "json \<Rightarrow> nat \<Rightarrow> exception + json" where
  "getitem_index (JList xs) i =
     (if i < length xs then Inr (xs ! i)
      else Inl (Exception IndexError ''list index out of range''))"
| "getitem_index (JStr s) i =
     (if i < length s then Inr (JStr [s ! i])
      else Inl (Exception IndexError ''string index out of range''))"
| "getitem_index (JDict kvs) i = Inl (Exception KeyError (str_nat i))"
| "getitem_index obj i =
     Inl (Exception TypeError (sq @ type_name obj @ sq @ '' object is not subscriptable''))"

fun py_len :: "json \<Rightarrow> exception + nat" where
  "py_len (JList xs) = Inr (length xs)"
| "py_len (JStr s) = Inr (length s)"
| "py_len (JDict kvs) = Inr (length kvs)"
| "py_len obj =
     Inl (Exception TypeError (''object of type '' @ sq @ type_name obj @ sq @ '' has no len()''))"

text \<open>The elements a \<^verbatim>\<open>for\<close> loop over the object visits.\<close>

fun py_iter :: "json \<Rightarrow> exception + json list" where
  "py_iter (JList xs) = Inr xs"
| "py_iter (JStr s) = Inr (map (\<lambda>c. JStr [c]) s)"
| "py_iter (JDict kvs) = Inr (map (\<lambda>kv. JStr (fst kv)) kvs)"
| "py_iter obj =
     Inl (Exception TypeError (sq @ type_name obj @ sq @ '' object is not iterable''))"

text \<open>
  \<^verbatim>\<open>obj[:20]\<close> followed by iteration. Slicing a dictionary raises (a \<^verbatim>\<open>TypeError\<close> up to
  CPython 3.11).
\<close>

fun slice_to :: "nat \<Rightarrow> json \<Rightarrow> exception + json list" where
  "slice_to n (JList xs) = Inr (take n xs)"
| "slice_to n (JStr s) = Inr (map (\<lambda>c. JStr [c]) (take n s))"
| "slice_to n (JDict kvs) =
     Inl (Exception TypeError (''unhashable type: '' @ sq @ ''slice'' @ sq))"
| "slice_to n obj =
     Inl (Exception TypeError (sq @ type_name obj @ sq @ '' object is not subscriptable''))"

text \<open>
  A replacement field \<^verbatim>\<open>{v}\<close> of an f-string: a string is inserted as it is, any
  other object through \<^verbatim>\<open>str\<close>, which for every other JSON value is the built-in
  \<^verbatim>\<open>repr\<close>. The built-in is a parameter of the model.
\<close>

fun fmt :: "(json \<Rightarrow> string) \<Rightarrow> json \<Rightarrow> string" where
  "fmt repr (JStr s) = s"
| "fmt repr v = repr v"

text \<open>\<^verbatim>\<open>sep.join(xs)\<close>\<close>

fun join :: "string \<Rightarrow> string list \<Rightarrow> string" where
  "join sep [] = []"
| "join sep [x] = x"
| "join sep (x # y # ys) = x @ sep @ join sep (y # ys)"

datatype step = Key string | Index nat

fun getitem :: "json \<Rightarrow> step \<Rightarrow> exception + json" where
  "getitem obj (Key k) = getitem_key obj k"
| "getitem obj (Index i) = getitem_index obj i"

text \<open>A chain of subscripts \<^verbatim>\<open>obj[s1][s2]...\<close>, left to right; the first failure ends it.\<close>

fun navigate :: "json \<Rightarrow> step list \<Rightarrow> exception + json" where
  "navigate obj [] = Inr obj"
| "navigate obj (s # ss) =
     (case getitem obj s of Inl e \<Rightarrow> Inl e | Inr v \<Rightarrow> navigate v ss)"

section \<open>The outside world\<close>

text \<open>
  What the server reads from outside is a parameter of the model: the reply of
  \<^verbatim>\<open>requests.get(BASE_URL)\<close> (or the exception it raises), what BeautifulSoup finds in
  the page, \<^verbatim>\<open>json.loads\<close> and \<^verbatim>\<open>json.dumps\<close>, the environment variable, the reply
  of the news API already read by \<^verbatim>\<open>resp.json()\<close>, and the built-in \<^verbatim>\<open>repr\<close>.
\<close>

record response =
  status_code :: nat
  status_error :: string
    \<comment> \<open>the text of the \<^verbatim>\<open>HTTPError\<close> that \<^verbatim>\<open>raise_for_status\<close> raises on a 4xx or 5xx status\<close>
  script_tag :: "string option option"
    \<comment> \<open>\<^verbatim>\<open>soup.find("script", id="__NEXT_DATA__")\<close>: \<open>None\<close> when the page has no such
        element, otherwise the element's \<^verbatim>\<open>.string\<close>, itself \<^verbatim>\<open>None\<close> or a string\<close>

record world =
  requests_get :: "exception + response"
  json_loads :: "string \<Rightarrow> exception + json"
  json_dumps :: "json \<Rightarrow> exception + string"
  getenv_NEWSAPI_KEY :: "string option"
  httpx_get_json :: "string \<Rightarrow> (string \<times> json) list \<Rightarrow> exception + json"
  builtin_repr :: "json \<Rightarrow> string"

section \<open>The market extractor: \<^verbatim>\<open>scrape_polymarket\<close>\<close>

definition BASE_URL :: string where
  "BASE_URL = ''https://polymarket.com''"

text \<open>
  The list comprehension of lines 38 to 41: for each \<open>i\<close> of the range, in order,
  \<^verbatim>\<open>outcomes[i]\<close> and then \<^verbatim>\<open>prices[i]\<close>.
\<close>

fun outcome_pairs :: "json \<Rightarrow> json \<Rightarrow> nat list \<Rightarrow> exception + json list" where
  "outcome_pairs outcomes prices [] = Inr []"
| "outcome_pairs outcomes prices (i # is) =
     (case getitem_index outcomes i of Inl e \<Rightarrow> Inl e | Inr oc \<Rightarrow>
      case getitem_index prices i of Inl e \<Rightarrow> Inl e | Inr pr \<Rightarrow>
      case outcome_pairs outcomes prices is of Inl e \<Rightarrow> Inl e | Inr rest \<Rightarrow>
        Inr (JDict [(''outcome'', oc), (''probability'', pr)] # rest))"

definition outcome_probs :: "json \<Rightarrow> json \<Rightarrow> exception + json list" where
  "outcome_probs outcomes prices =
     (case py_len outcomes of Inl e \<Rightarrow> Inl e | Inr n1 \<Rightarrow>
      case py_len prices of Inl e \<Rightarrow> Inl e | Inr n2 \<Rightarrow>
        outcome_pairs outcomes prices [0 ..< min n1 n2])"

text \<open>The body of the loop of lines 31 to 46, for one event.\<close>

definition scrape_event :: "(json \<Rightarrow> string) \<Rightarrow> json \<Rightarrow> exception + json" where
  "scrape_event repr event =
     (case attr_get event ''title'' (JStr []) of Inl e \<Rightarrow> Inl e | Inr title \<Rightarrow>
      case attr_get event ''slug'' (JStr []) of Inl e \<Rightarrow> Inl e | Inr slug \<Rightarrow>
      let url = BASE_URL @ ''/market/'' @ fmt repr slug in
      case attr_get event ''markets'' (JList []) of Inl e \<Rightarrow> Inl e | Inr markets \<Rightarrow>
      case getitem_index markets 0 of Inl e \<Rightarrow> Inl e | Inr market_info \<Rightarrow>
      case attr_get market_info ''outcomes'' (JList []) of Inl e \<Rightarrow> Inl e | Inr outcomes \<Rightarrow>
      case attr_get market_info ''outcomePrices'' (JList []) of Inl e \<Rightarrow> Inl e | Inr prices \<Rightarrow>
      case outcome_probs outcomes prices of Inl e \<Rightarrow> Inl e | Inr probs \<Rightarrow>
        Inr (JDict [(''title'', title), (''url'', JStr url), (''outcomes'', JList probs)]))"

text \<open>The loop: \<open>results\<close> grows by one summary per event; an exception ends it.\<close>

fun scrape_loop :: "(json \<Rightarrow> string) \<Rightarrow> json list \<Rightarrow> json list \<Rightarrow> exception + json list" where
  "scrape_loop repr [] results = Inr results"
| "scrape_loop repr (event # events) results =
     (case scrape_event repr event of
        Inl e \<Rightarrow> Inl e
      | Inr summary \<Rightarrow> scrape_loop repr events (results @ [summary]))"

definition events_path :: "step list" where
  "events_path =
     [Key ''props'', Key ''pageProps'', Key ''dehydratedState'', Key ''queries'', Index 0,
      Key ''state'', Key ''data'', Key ''pages'', Index 0, Key ''events'']"

text \<open>Lines 29 to 47: from the parsed JSON to the list of summaries.\<close>

definition extract_markets :: "(json \<Rightarrow> string) \<Rightarrow> json \<Rightarrow> exception + json list" where
  "extract_markets repr data =
     (case navigate data events_path of Inl e \<Rightarrow> Inl e | Inr events \<Rightarrow>
      case slice_to 20 events of Inl e \<Rightarrow> Inl e | Inr first_events \<Rightarrow>
        scrape_loop repr first_events [])"

definition scrape_polymarket :: "world \<Rightarrow> exception + json list" where
  "scrape_polymarket w =
     (case requests_get w of Inl e \<Rightarrow> Inl e | Inr resp \<Rightarrow>
      if 400 \<le> status_code resp \<and> status_code resp < 600
      then Inl (Exception HTTPError (status_error resp))
      else
        case script_tag resp of
          None \<Rightarrow>
            Inl (Exception AttributeError
              (sq @ ''NoneType'' @ sq @ '' object has no attribute '' @ sq @ ''string'' @ sq))
        | Some None \<Rightarrow>
            Inl (Exception TypeError
              ''the JSON object must be str, bytes or bytearray, not NoneType'')
        | Some (Some s) \<Rightarrow>
            (case json_loads w s of Inl e \<Rightarrow> Inl e | Inr data \<Rightarrow>
               extract_markets (builtin_repr w) data))"

section \<open>The tool registry: \<^verbatim>\<open>list_tools\<close>\<close>

record Tool =
  name :: string
  description :: string
  inputSchema :: json

definition list_tools :: "Tool list" where
  "list_tools =
    [\<lparr>name = ''scrape-polymarket'',
      description = ''Scrape latest prediction markets from Polymarket homepage'',
      inputSchema = JDict [(''type'', JStr ''object''), (''properties'', JDict []),
                           (''additionalProperties'', JBool False)]\<rparr>,
     \<lparr>name = ''get-news-headlines'',
      description = ''Get top news headlines using NewsAPI.org'',
      inputSchema = JDict
        [(''type'', JStr ''object''),
         (''properties'', JDict
           [(''query'', JDict
              [(''type'', JStr ''string''),
               (''description'', JStr ''Keywords or phrase to search for in the news headlines.'')]),
            (''language'', JDict
              [(''type'', JStr ''string''),
               (''description'', JStr ''2-letter ISO-639-1 code of the language you want to get headlines for.''),
               (''default'', JStr ''en'')]),
            (''pageSize'', JDict
              [(''type'', JStr ''integer''),
               (''description'', JStr ''Number of results to return per page (max 100)''),
               (''default'', JInt 5),
               (''minimum'', JInt 1),
               (''maximum'', JInt 100)])]),
         (''required'', JList [JStr ''query''])]\<rparr>,
     \<lparr>name = ''get-news-everything'',
      description = ''Get news articles using NewsAPI.org's everything endpoint (broader search).'',
      inputSchema = JDict
        [(''type'', JStr ''object''),
         (''properties'', JDict
           [(''query'', JDict
              [(''type'', JStr ''string''),
               (''description'', JStr ''Keywords or phrase to search for in the news articles.'')]),
            (''language'', JDict
              [(''type'', JStr ''string''),
               (''description'', JStr ''2-letter ISO-639-1 code of the language you want to get articles for.''),
               (''default'', JStr ''en'')]),
            (''pageSize'', JDict
              [(''type'', JStr ''integer''),
               (''description'', JStr ''Number of results to return per page (max 100)''),
               (''default'', JInt 5),
               (''minimum'', JInt 1),
               (''maximum'', JInt 100)]),
            (''from'', JDict
              [(''type'', JStr ''string''),
               (''description'', JStr ''A date and optional time for the oldest article allowed. (YYYY-MM-DD)'')]),
            (''sortBy'', JDict
              [(''type'', JStr ''string''),
               (''description'', JStr ''The order to sort the articles in. Possible options: relevancy, popularity, publishedAt''),
               (''enum'', JList [JStr ''relevancy'', JStr ''popularity'', JStr ''publishedAt'']),
               (''default'', JStr ''publishedAt'')])]),
         (''required'', JList [JStr ''query''])]\<rparr>]"

text \<open>The default that the registry declares for a property of a tool, if any.\<close>

definition declared_default :: "string \<Rightarrow> string \<Rightarrow> json option" where
  "declared_default tool prop =
     (case filter (\<lambda>t. name t = tool) list_tools of
        [] \<Rightarrow> None
      | t # ts \<Rightarrow>
          (case navigate (inputSchema t) [Key ''properties'', Key prop, Key ''default''] of
             Inl e \<Rightarrow> None
           | Inr v \<Rightarrow> Some v))"

section \<open>The headline formatter: \<^verbatim>\<open>format_news_headlines\<close>\<close>

text \<open>The f-string of lines 137 to 140, its replacement fields evaluated left to right.\<close>

definition format_article :: "(json \<Rightarrow> string) \<Rightarrow> json \<Rightarrow> exception + string" where
  "format_article repr article =
     (case attr_get article ''title'' (JStr ''N/A'') of Inl e \<Rightarrow> Inl e | Inr title \<Rightarrow>
      case attr_get article ''source'' (JDict []) of Inl e \<Rightarrow> Inl e | Inr source \<Rightarrow>
      case attr_get source ''name'' (JStr ''N/A'') of Inl e \<Rightarrow> Inl e | Inr source_name \<Rightarrow>
      case attr_get article ''publishedAt'' (JStr ''N/A'') of Inl e \<Rightarrow> Inl e | Inr published \<Rightarrow>
      case attr_get article ''url'' (JStr ''N/A'') of Inl e \<Rightarrow> Inl e | Inr url \<Rightarrow>
        Inr (''Title: '' @ fmt repr title @ nl @
             ''Source: '' @ fmt repr source_name @ nl @
             ''Published: '' @ fmt repr published @ nl @
             ''URL: '' @ fmt repr url @ nl @ ''---'' @ nl))"

text \<open>The loop of lines 135 to 141, appending to \<open>formatted\<close>.\<close>

fun format_loop :: "(json \<Rightarrow> string) \<Rightarrow> json list \<Rightarrow> string list \<Rightarrow> exception + string list" where
  "format_loop repr [] formatted = Inr formatted"
| "format_loop repr (article # articles) formatted =
     (case format_article repr article of
        Inl e \<Rightarrow> Inl e
      | Inr s \<Rightarrow> format_loop repr articles (formatted @ [s]))"

text \<open>The body of the \<^verbatim>\<open>try\<close> block, lines 127 to 142.\<close>

definition format_news_headlines_try :: "(json \<Rightarrow> string) \<Rightarrow> json \<Rightarrow> exception + string" where
  "format_news_headlines_try repr news_data =
     (if \<not> truthy news_data \<or> \<not> is_dict news_data then Inr ''No news data available.''
      else
        case attr_get news_data ''status'' JNull of Inl e \<Rightarrow> Inl e | Inr status \<Rightarrow>
        if status \<noteq> JStr ''ok'' then
          (case attr_get news_data ''message'' (JStr ''Unknown error'') of
             Inl e \<Rightarrow> Inl e
           | Inr message \<Rightarrow> Inr (''NewsAPI error: '' @ fmt repr message))
        else
          case attr_get news_data ''articles'' (JList []) of Inl e \<Rightarrow> Inl e | Inr articles \<Rightarrow>
          if \<not> truthy articles then Inr ''No news articles found.''
          else
            case py_iter articles of Inl e \<Rightarrow> Inl e | Inr items \<Rightarrow>
            case format_loop repr items [''Top News Headlines:'' @ nl] of
              Inl e \<Rightarrow> Inl e
            | Inr formatted \<Rightarrow> Inr (join nl formatted))"

definition format_news_headlines :: "(json \<Rightarrow> string) \<Rightarrow> json \<Rightarrow> string" where
  "format_news_headlines repr news_data =
     (case format_news_headlines_try repr news_data of
        Inr s \<Rightarrow> s
      | Inl e \<Rightarrow> ''Error formatting news: '' @ str_exc e)"

section \<open>The dispatcher: \<^verbatim>\<open>handle_call_tool\<close>\<close>

record TextContent =
  content_type :: string
  content_text :: string

definition text_content :: "string \<Rightarrow> TextContent" where
  "text_content s = \<lparr>content_type = ''text'', content_text = s\<rparr>"

datatype request = Request string "(string \<times> json) list"

text \<open>\<^verbatim>\<open>arguments.get(key, default)\<close> on the argument dictionary.\<close>

definition arg_get :: "(string \<times> json) list \<Rightarrow> string \<Rightarrow> json \<Rightarrow> json" where
  "arg_get arguments key dflt = (case map_of arguments key of Some v \<Rightarrow> v | None \<Rightarrow> dflt)"

definition none_has_no_get :: exception where
  "none_has_no_get =
     Exception AttributeError
       (sq @ ''NoneType'' @ sq @ '' object has no attribute '' @ sq @ ''get'' @ sq)"

text \<open>\<^verbatim>\<open>os.getenv\<close> gives \<^verbatim>\<open>None\<close> or a string; the string goes into the parameters as it is.\<close>

fun key_value :: "string option \<Rightarrow> json" where
  "key_value None = JNull"
| "key_value (Some k) = JStr k"

text \<open>
  The result is the list of outbound HTTP requests the call made, in order, and
  either the exception that leaves the handler or the content list it returns.
\<close>

definition handle_call_tool ::
  "world \<Rightarrow> string \<Rightarrow> (string \<times> json) list option \<Rightarrow>
     request list \<times> (exception + TextContent list)" where
  "handle_call_tool w tool arguments =
     (if tool = ''scrape-polymarket'' then
        ([Request BASE_URL []],
         case scrape_polymarket w of
           Inl e \<Rightarrow> Inr [text_content (''Error scraping Polymarket: '' @ str_exc e)]
         | Inr results \<Rightarrow>
             (case json_dumps w (JList results) of
                Inl e \<Rightarrow> Inr [text_content (''Error scraping Polymarket: '' @ str_exc e)]
              | Inr s \<Rightarrow> Inr [text_content s]))
      else if tool = ''get-news-headlines'' then
        (case arguments of
           None \<Rightarrow> ([], Inl none_has_no_get)
         | Some args \<Rightarrow>
             let query = arg_get args ''query'' JNull;
                 language = arg_get args ''language'' (JStr ''en'');
                 page_size = arg_get args ''pageSize'' (JInt 5);
                 api_key = getenv_NEWSAPI_KEY w
             in if \<not> truthy (key_value api_key)
                then ([], Inr [text_content ''Missing NEWSAPI_KEY in environment.''])
                else
                  let url = ''https://newsapi.org/v2/top-headlines'';
                      params = [(''q'', query), (''language'', language),
                                (''pageSize'', page_size), (''apiKey'', key_value api_key)]
                  in ([Request url params],
                      case httpx_get_json w url params of
                        Inl e \<Rightarrow> Inl e
                      | Inr news_data \<Rightarrow>
                          Inr [text_content (format_news_headlines (builtin_repr w) news_data)]))
      else if tool = ''get-news-everything'' then
        (case arguments of
           None \<Rightarrow> ([], Inl none_has_no_get)
         | Some args \<Rightarrow>
             let query = arg_get args ''query'' JNull;
                 api_key = getenv_NEWSAPI_KEY w;
                 sort_by = arg_get args ''sortBy'' (JStr ''popularity'');
                 page_size = arg_get args ''pageSize'' (JInt 100);
                 page = arg_get args ''page'' (JInt 1);
                 params = [(''q'', query), (''apiKey'', key_value api_key),
                           (''sortBy'', sort_by), (''pageSize'', page_size), (''page'', page)];
                 params = (if truthy (arg_get args ''from'' JNull)
                           then params @ [(''from'', arg_get args ''from'' JNull)] else params);
                 params = (if truthy (arg_get args ''to'' JNull)
                           then params @ [(''to'', arg_get args ''to'' JNull)] else params);
                 url = ''https://newsapi.org/v2/everything''
             in ([Request url params],
                 case httpx_get_json w url params of
                   Inl e \<Rightarrow> Inl e
                 | Inr news_data \<Rightarrow>
                     Inr [text_content (format_news_headlines (builtin_repr w) news_data)]))
      else ([], Inr [text_content (''Unknown tool: '' @ tool)]))"

section \<open>Example inputs\<close>

text \<open>
  Concrete inputs on which the theorems below are run. \<open>example_repr\<close> stands in for
  the built-in \<^verbatim>\<open>repr\<close>: it is right on \<^verbatim>\<open>None\<close>, booleans, integers and floats, and
  the examples never apply it to a string or a container.
\<close>

fun example_repr :: "json \<Rightarrow> string" where
  "example_repr JNull = ''None''"
| "example_repr (JBool b) = (if b then ''True'' else ''False'')"
| "example_repr (JInt i) = (if i < 0 then ''-'' else []) @ str_nat (nat \<bar>i\<bar>)"
| "example_repr (JFloat f) = f"
| "example_repr v = ''<'' @ type_name v @ ''>''"

text \<open>A parsed page that holds the given events at the place the extractor reads.\<close>

definition page_with_events :: "json list \<Rightarrow> json" where
  "page_with_events events =
     JDict [(''props'', JDict [(''pageProps'', JDict [(''dehydratedState'', JDict
       [(''queries'', JList [JDict [(''state'', JDict [(''data'', JDict
          [(''pages'', JList [JDict [(''events'', JList events)]])])])]])])])])]"

definition event_yes_no :: json where
  "event_yes_no =
     JDict [(''title'', JStr ''Rain tomorrow?''), (''slug'', JStr ''rain-tomorrow''),
            (''markets'', JList [JDict
               [(''outcomes'', JList [JStr ''Yes'', JStr ''No'']),
                (''outcomePrices'', JList [JStr ''0.4'', JStr ''0.6''])]])]"

definition event_empty_markets :: json where
  "event_empty_markets =
     JDict [(''title'', JStr ''No market yet''), (''slug'', JStr ''no-market-yet''),
            (''markets'', JList [])]"

definition event_null_outcomes :: json where
  "event_null_outcomes =
     JDict [(''title'', JStr ''Pending''), (''slug'', JStr ''pending''),
            (''markets'', JList [JDict
               [(''outcomes'', JNull), (''outcomePrices'', JList [JStr ''0.5''])]])]"

definition event_three_two :: json where
  "event_three_two =
     JDict [(''title'', JStr ''Who wins?''), (''slug'', JStr ''who-wins''),
            (''markets'', JList [JDict
               [(''outcomes'', JList [JStr ''A'', JStr ''B'', JStr ''C'']),
                (''outcomePrices'', JList [JStr ''0.5'', JStr ''0.3''])]])]"

definition example_world :: world where
  "example_world =
     \<lparr>requests_get =
        Inr \<lparr>status_code = 200, status_error = [], script_tag = Some (Some ''{}'')\<rparr>,
      json_loads = (\<lambda>s. Inr (page_with_events [event_yes_no])),
      json_dumps = (\<lambda>v. Inr ''[]''),
      getenv_NEWSAPI_KEY = Some ''secret'',
      httpx_get_json =
        (\<lambda>url params. Inr (JDict [(''status'', JStr ''ok''), (''articles'', JList [])])),
      builtin_repr = example_repr\<rparr>"

section \<open>The dispatcher's branches\<close>

lemma navigate_page_with_events:
  "navigate (page_with_events events) events_path = Inr (JList events)"
  by (simp add: page_with_events_def events_path_def)

text \<open>
  Claim C9. A tool name that is none of \<^verbatim>\<open>scrape-polymarket\<close>, \<^verbatim>\<open>get-news-headlines\<close> and
  \<^verbatim>\<open>get-news-everything\<close> sends no request and returns, as a normal result, the single
  text item \<^verbatim>\<open>Unknown tool: <name>\<close>, whatever the arguments and the outside world.
\<close>

theorem unknown_tool_text:
  "tool \<notin> {''scrape-polymarket'', ''get-news-headlines'', ''get-news-everything''} \<Longrightarrow>
   handle_call_tool w tool arguments = ([], Inr [text_content (''Unknown tool: '' @ tool)])"
  by (simp add: handle_call_tool_def)

theorem unknown_tool_text_witness:
  "''not-a-tool'' \<notin> {''scrape-polymarket'', ''get-news-headlines'', ''get-news-everything''} \<and>
   handle_call_tool example_world ''not-a-tool'' None =
     ([], Inr [\<lparr>content_type = ''text'', content_text = ''Unknown tool: not-a-tool''\<rparr>])"
  using unknown_tool_text [of "''not-a-tool''" example_world None]
  by (simp add: text_content_def)

text \<open>
  Claim C10. With \<^verbatim>\<open>None\<close> for the argument map, both news branches raise the
  \<^verbatim>\<open>AttributeError\<close> of \<^verbatim>\<open>None.get\<close> before any request is sent, and the exception leaves
  the handler; the \<^verbatim>\<open>scrape-polymarket\<close> branch never reads the arguments and always
  returns one text item.
\<close>

theorem none_arguments_raise:
  "handle_call_tool w ''get-news-headlines'' None =
     ([], Inl (Exception AttributeError
        (sq @ ''NoneType'' @ sq @ '' object has no attribute '' @ sq @ ''get'' @ sq))) \<and>
   handle_call_tool w ''get-news-everything'' None =
     ([], Inl (Exception AttributeError
        (sq @ ''NoneType'' @ sq @ '' object has no attribute '' @ sq @ ''get'' @ sq))) \<and>
   (\<forall>arguments. \<exists>t. snd (handle_call_tool w ''scrape-polymarket'' arguments) = Inr [t])"
  by (simp add: handle_call_tool_def none_has_no_get_def split: sum.splits)

text \<open>
  Claim C3. Called with only \<^verbatim>\<open>query\<close>, \<^verbatim>\<open>get-news-everything\<close> sends \<^verbatim>\<open>sortBy\<close>
  \<^verbatim>\<open>popularity\<close> and \<^verbatim>\<open>pageSize\<close> 100, while the registry declares the defaults
  \<^verbatim>\<open>publishedAt\<close> and 5 for that tool: the dispatcher does not apply the declared defaults.
\<close>

theorem everything_defaults_differ:
  "fst (handle_call_tool w ''get-news-everything'' (Some [(''query'', JStr ''x'')])) =
     [Request ''https://newsapi.org/v2/everything''
        [(''q'', JStr ''x''), (''apiKey'', key_value (getenv_NEWSAPI_KEY w)),
         (''sortBy'', JStr ''popularity''), (''pageSize'', JInt 100), (''page'', JInt 1)]] \<and>
   declared_default ''get-news-everything'' ''pageSize'' = Some (JInt 5) \<and>
   declared_default ''get-news-everything'' ''sortBy'' = Some (JStr ''publishedAt'')"
  by (simp add: handle_call_tool_def arg_get_def declared_default_def list_tools_def Let_def)

text \<open>
  Claim C2. With the API key absent from the environment, \<^verbatim>\<open>get-news-headlines\<close>
  sends nothing and returns the text \<^verbatim>\<open>Missing NEWSAPI_KEY in environment.\<close>, but
  \<^verbatim>\<open>get-news-everything\<close> has no such check and sends its request with \<^verbatim>\<open>apiKey\<close> set to
  \<^verbatim>\<open>None\<close>.
\<close>

theorem everything_sends_without_key:
  "fst (handle_call_tool (w\<lparr>getenv_NEWSAPI_KEY := None\<rparr>) ''get-news-everything''
          (Some [(''query'', JStr ''x'')])) =
     [Request ''https://newsapi.org/v2/everything''
        [(''q'', JStr ''x''), (''apiKey'', JNull),
         (''sortBy'', JStr ''popularity''), (''pageSize'', JInt 100), (''page'', JInt 1)]] \<and>
   handle_call_tool (w\<lparr>getenv_NEWSAPI_KEY := None\<rparr>) ''get-news-headlines''
          (Some [(''query'', JStr ''x'')]) =
     ([], Inr [text_content ''Missing NEWSAPI_KEY in environment.''])"
  by (simp add: handle_call_tool_def arg_get_def Let_def)

section \<open>The market extractor\<close>

lemma outcome_pairs_ok:
  "outcome_pairs outcomes prices is = Inr r \<Longrightarrow>
   length r = length is \<and>
   (\<forall>k<length is. \<exists>oc pr.
      getitem_index outcomes (is ! k) = Inr oc \<and> getitem_index prices (is ! k) = Inr pr \<and>
      r ! k = JDict [(''outcome'', oc), (''probability'', pr)])"
proof (induction "is" arbitrary: r)
  case Nil
  then show ?case by simp
next
  case (Cons i "is")
  from Cons.prems obtain oc pr rest where
    oc: "getitem_index outcomes i = Inr oc" and
    pr: "getitem_index prices i = Inr pr" and
    rest: "outcome_pairs outcomes prices is = Inr rest" and
    r: "r = JDict [(''outcome'', oc), (''probability'', pr)] # rest"
    by (auto split: sum.splits)
  from Cons.IH [OF rest] have len: "length rest = length is" and
    ih: "\<forall>k<length is. \<exists>oc pr.
      getitem_index outcomes (is ! k) = Inr oc \<and> getitem_index prices (is ! k) = Inr pr \<and>
      rest ! k = JDict [(''outcome'', oc), (''probability'', pr)]"
    by simp_all
  show ?case
  proof (intro conjI allI impI)
    show "length r = length (i # is)" using r len by simp
  next
    fix k assume k: "k < length (i # is)"
    show "\<exists>oc pr. getitem_index outcomes ((i # is) ! k) = Inr oc \<and>
            getitem_index prices ((i # is) ! k) = Inr pr \<and>
            r ! k = JDict [(''outcome'', oc), (''probability'', pr)]"
    proof (cases k)
      case 0
      then show ?thesis using oc pr r by simp
    next
      case (Suc j)
      then show ?thesis using ih k r by simp
    qed
  qed
qed

lemma outcome_probs_ok:
  assumes "outcome_probs outcomes prices = Inr probs"
  shows "\<exists>n1 n2. py_len outcomes = Inr n1 \<and> py_len prices = Inr n2 \<and>
           length probs = min n1 n2 \<and>
           (\<forall>i<min n1 n2. \<exists>oc pr.
              getitem_index outcomes i = Inr oc \<and> getitem_index prices i = Inr pr \<and>
              probs ! i = JDict [(''outcome'', oc), (''probability'', pr)])"
proof -
  from assms obtain n1 n2 where
    n1: "py_len outcomes = Inr n1" and n2: "py_len prices = Inr n2" and
    pairs: "outcome_pairs outcomes prices [0 ..< min n1 n2] = Inr probs"
    by (auto simp: outcome_probs_def split: sum.splits)
  from outcome_pairs_ok [OF pairs] show ?thesis using n1 n2 by simp
qed


lemma scrape_event_outcomes:
  assumes "scrape_event repr event = Inr summary"
  shows "\<exists>markets market_info outcomes prices n1 n2 probs.
      attr_get event ''markets'' (JList []) = Inr markets \<and>
      getitem_index markets 0 = Inr market_info \<and>
      attr_get market_info ''outcomes'' (JList []) = Inr outcomes \<and>
      attr_get market_info ''outcomePrices'' (JList []) = Inr prices \<and>
      py_len outcomes = Inr n1 \<and> py_len prices = Inr n2 \<and>
      attr_get summary ''outcomes'' JNull = Inr (JList probs) \<and>
      length probs = min n1 n2 \<and>
      (\<forall>i<min n1 n2. \<exists>oc pr.
         getitem_index outcomes i = Inr oc \<and> getitem_index prices i = Inr pr \<and>
         probs ! i = JDict [(''outcome'', oc), (''probability'', pr)])"
proof -
  from assms obtain title slug markets market_info outcomes prices probs where
    markets: "attr_get event ''markets'' (JList []) = Inr markets" and
    info: "getitem_index markets 0 = Inr market_info" and
    outcomes: "attr_get market_info ''outcomes'' (JList []) = Inr outcomes" and
    prices: "attr_get market_info ''outcomePrices'' (JList []) = Inr prices" and
    probs: "outcome_probs outcomes prices = Inr probs" and
    summary: "summary = JDict [(''title'', title),
                (''url'', JStr (BASE_URL @ ''/market/'' @ fmt repr slug)),
                (''outcomes'', JList probs)]"
    by (auto simp: scrape_event_def Let_def split: sum.splits)
  from summary have "attr_get summary ''outcomes'' JNull = Inr (JList probs)" by simp
  with outcome_probs_ok [OF probs] markets info outcomes prices show ?thesis by blast
qed

lemma outcome_pairs_lists:
  "\<forall>i\<in>set is. i < length os \<and> i < length ps \<Longrightarrow>
   outcome_pairs (JList os) (JList ps) is =
     Inr (map (\<lambda>i. JDict [(''outcome'', os ! i), (''probability'', ps ! i)]) is)"
  by (induction "is") simp_all

lemma outcome_probs_lists:
  "outcome_probs (JList os) (JList ps) =
     Inr (map (\<lambda>(oc, pr). JDict [(''outcome'', oc), (''probability'', pr)]) (zip os ps))"
proof -
  have "map (\<lambda>i. JDict [(''outcome'', os ! i), (''probability'', ps ! i)])
          [0 ..< min (length os) (length ps)] =
        map (\<lambda>(oc, pr). JDict [(''outcome'', oc), (''probability'', pr)]) (zip os ps)"
    by (rule nth_equalityI) simp_all
  then show ?thesis
    by (simp add: outcome_probs_def outcome_pairs_lists)
qed

text \<open>
  Claim C7. For every event that the extractor processes into a summary, the summary's
  \<open>outcomes\<close> list pairs \<^verbatim>\<open>outcomes[i]\<close> with \<^verbatim>\<open>outcomePrices[i]\<close> position by position and
  its length is the smaller of the two lengths; and when both fields are lists the
  pairing never raises and is the zip of the two lists. The witness is an event with
  three outcomes and two prices, whose list has length two.
\<close>

theorem outcome_probs_zip:
  "(scrape_event repr event = Inr summary \<longrightarrow>
     (\<exists>markets market_info outcomes prices n1 n2 probs.
        attr_get event ''markets'' (JList []) = Inr markets \<and>
        getitem_index markets 0 = Inr market_info \<and>
        attr_get market_info ''outcomes'' (JList []) = Inr outcomes \<and>
        attr_get market_info ''outcomePrices'' (JList []) = Inr prices \<and>
        py_len outcomes = Inr n1 \<and> py_len prices = Inr n2 \<and>
        attr_get summary ''outcomes'' JNull = Inr (JList probs) \<and>
        length probs = min n1 n2 \<and>
        (\<forall>i<min n1 n2. \<exists>oc pr.
           getitem_index outcomes i = Inr oc \<and> getitem_index prices i = Inr pr \<and>
           probs ! i = JDict [(''outcome'', oc), (''probability'', pr)]))) \<and>
   outcome_probs (JList os) (JList ps) =
     Inr (map (\<lambda>(oc, pr). JDict [(''outcome'', oc), (''probability'', pr)]) (zip os ps)) \<and>
   length (map (\<lambda>(oc, pr). JDict [(''outcome'', oc), (''probability'', pr)]) (zip os ps)) =
     min (length os) (length ps)"
proof (intro conjI impI)
  assume "scrape_event repr event = Inr summary"
  then show "\<exists>markets market_info outcomes prices n1 n2 probs.
        attr_get event ''markets'' (JList []) = Inr markets \<and>
        getitem_index markets 0 = Inr market_info \<and>
        attr_get market_info ''outcomes'' (JList []) = Inr outcomes \<and>
        attr_get market_info ''outcomePrices'' (JList []) = Inr prices \<and>
        py_len outcomes = Inr n1 \<and> py_len prices = Inr n2 \<and>
        attr_get summary ''outcomes'' JNull = Inr (JList probs) \<and>
        length probs = min n1 n2 \<and>
        (\<forall>i<min n1 n2. \<exists>oc pr.
           getitem_index outcomes i = Inr oc \<and> getitem_index prices i = Inr pr \<and>
           probs ! i = JDict [(''outcome'', oc), (''probability'', pr)])"
    by (rule scrape_event_outcomes)
next
  show "outcome_probs (JList os) (JList ps) =
     Inr (map (\<lambda>(oc, pr). JDict [(''outcome'', oc), (''probability'', pr)]) (zip os ps))"
    by (rule outcome_probs_lists)
next
  show "length (map (\<lambda>(oc, pr). JDict [(''outcome'', oc), (''probability'', pr)]) (zip os ps)) =
     min (length os) (length ps)"
    by simp
qed

theorem outcome_probs_zip_witness:
  "scrape_event example_repr event_three_two =
     Inr (JDict [(''title'', JStr ''Who wins?''),
                 (''url'', JStr ''https://polymarket.com/market/who-wins''),
                 (''outcomes'', JList
                    [JDict [(''outcome'', JStr ''A''), (''probability'', JStr ''0.5'')],
                     JDict [(''outcome'', JStr ''B''), (''probability'', JStr ''0.3'')]])]) \<and>
   (\<exists>probs. attr_get (JDict [(''title'', JStr ''Who wins?''),
                 (''url'', JStr ''https://polymarket.com/market/who-wins''),
                 (''outcomes'', JList
                    [JDict [(''outcome'', JStr ''A''), (''probability'', JStr ''0.5'')],
                     JDict [(''outcome'', JStr ''B''), (''probability'', JStr ''0.3'')]])])
               ''outcomes'' JNull = Inr (JList probs) \<and> length probs = min 3 2)"
proof -
  have h: "scrape_event example_repr event_three_two =
     Inr (JDict [(''title'', JStr ''Who wins?''),
                 (''url'', JStr ''https://polymarket.com/market/who-wins''),
                 (''outcomes'', JList
                    [JDict [(''outcome'', JStr ''A''), (''probability'', JStr ''0.5'')],
                     JDict [(''outcome'', JStr ''B''), (''probability'', JStr ''0.3'')]])])"
    by (simp add: scrape_event_def event_three_two_def outcome_probs_def BASE_URL_def
        upt_conv_Cons)
  show ?thesis
    using h outcome_probs_zip [of example_repr event_three_two
      "JDict [(''title'', JStr ''Who wins?''),
              (''url'', JStr ''https://polymarket.com/market/who-wins''),
              (''outcomes'', JList
                 [JDict [(''outcome'', JStr ''A''), (''probability'', JStr ''0.5'')],
                  JDict [(''outcome'', JStr ''B''), (''probability'', JStr ''0.3'')]])]"]
    by simp
qed

lemma scrape_loop_ok:
  "\<forall>ev\<in>set evs. \<exists>s. scrape_event repr ev = Inr s \<Longrightarrow>
   \<exists>rs. scrape_loop repr evs acc = Inr (acc @ rs) \<and> length rs = length evs \<and>
        (\<forall>i<length evs. scrape_event repr (evs ! i) = Inr (rs ! i))"
proof (induction evs arbitrary: acc)
  case Nil
  then show ?case by simp
next
  case (Cons ev evs)
  from Cons.prems obtain s where s: "scrape_event repr ev = Inr s" by auto
  from Cons.prems have "\<forall>ev\<in>set evs. \<exists>s. scrape_event repr ev = Inr s" by simp
  from Cons.IH [OF this, of "acc @ [s]"] obtain rs where
    loop: "scrape_loop repr evs (acc @ [s]) = Inr ((acc @ [s]) @ rs)" and
    len: "length rs = length evs" and
    each: "\<forall>i<length evs. scrape_event repr (evs ! i) = Inr (rs ! i)"
    by blast
  have "scrape_loop repr (ev # evs) acc = Inr (acc @ (s # rs))"
    using s loop by simp
  moreover have "length (s # rs) = length (ev # evs)" using len by simp
  moreover have "\<forall>i<length (ev # evs). scrape_event repr ((ev # evs) ! i) = Inr ((s # rs) ! i)"
  proof (intro allI impI)
    fix i assume "i < length (ev # evs)"
    then show "scrape_event repr ((ev # evs) ! i) = Inr ((s # rs) ! i)"
      using s each by (cases i) simp_all
  qed
  ultimately show ?case by blast
qed

text \<open>
  Claim C6, as amended. When the events list has at least 21 entries and each of the
  first 20 is processed without an exception, the extractor returns exactly 20
  summaries, the \<open>i\<close>-th being the summary of the \<open>i\<close>-th event. Events after the 20th
  are never looked at.
\<close>

theorem first_twenty_events:
  assumes nav: "navigate data events_path = Inr (JList events)"
    and len: "21 \<le> length events"
    and ok: "\<forall>ev\<in>set (take 20 events). \<exists>s. scrape_event repr ev = Inr s"
  shows "\<exists>results. extract_markets repr data = Inr results \<and> length results = 20 \<and>
           (\<forall>i<20. scrape_event repr (events ! i) = Inr (results ! i))"
proof -
  from scrape_loop_ok [OF ok, of "[]"] obtain rs where
    loop: "scrape_loop repr (take 20 events) [] = Inr rs" and
    lrs: "length rs = length (take 20 events)" and
    each: "\<forall>i<length (take 20 events). scrape_event repr (take 20 events ! i) = Inr (rs ! i)"
    by auto
  have l20: "length (take 20 events) = 20" using len by simp
  have "extract_markets repr data = Inr rs"
    using nav loop by (simp add: extract_markets_def)
  moreover have "length rs = 20" using lrs l20 by simp
  moreover have "\<forall>i<20. scrape_event repr (events ! i) = Inr (rs ! i)"
    using each l20 by simp
  ultimately show ?thesis by blast
qed

theorem first_twenty_events_witness:
  "navigate (page_with_events (replicate 21 event_yes_no)) events_path =
     Inr (JList (replicate 21 event_yes_no)) \<and>
   21 \<le> length (replicate 21 event_yes_no) \<and>
   (\<exists>results. extract_markets example_repr (page_with_events (replicate 21 event_yes_no)) =
        Inr results \<and> length results = 20 \<and>
      (\<forall>i<20. scrape_event example_repr (replicate 21 event_yes_no ! i) = Inr (results ! i)))"
proof -
  have nav: "navigate (page_with_events (replicate 21 event_yes_no)) events_path =
     Inr (JList (replicate 21 event_yes_no))"
    by (rule navigate_page_with_events)
  have len: "21 \<le> length (replicate 21 event_yes_no)" by simp
  have ev: "\<exists>s. scrape_event example_repr event_yes_no = Inr s"
    by (simp add: scrape_event_def event_yes_no_def outcome_probs_def upt_conv_Cons)
  have ok: "\<forall>ev\<in>set (take 20 (replicate 21 event_yes_no)).
              \<exists>s. scrape_event example_repr ev = Inr s"
    using ev by simp
  show ?thesis using nav len first_twenty_events [OF nav len ok] by simp
qed

text \<open>
  Claim C6 as stated fails: 21 events of which the first has \<^verbatim>\<open>null\<close> for \<^verbatim>\<open>outcomes\<close>.
  \<^verbatim>\<open>len(None)\<close> raises and the extractor returns no summary at all.
\<close>

theorem twenty_one_events_counterexample:
  "navigate (page_with_events (event_null_outcomes # replicate 20 event_yes_no)) events_path =
     Inr (JList (event_null_outcomes # replicate 20 event_yes_no)) \<and>
   length (event_null_outcomes # replicate 20 event_yes_no) = 21 \<and>
   extract_markets example_repr
       (page_with_events (event_null_outcomes # replicate 20 event_yes_no)) =
     Inl (Exception TypeError (''object of type '' @ sq @ ''NoneType'' @ sq @ '' has no len()''))"
proof -
  have "scrape_event example_repr event_null_outcomes =
     Inl (Exception TypeError (''object of type '' @ sq @ ''NoneType'' @ sq @ '' has no len()''))"
    by (simp add: scrape_event_def event_null_outcomes_def outcome_probs_def)
  then show ?thesis
    by (simp add: extract_markets_def navigate_page_with_events)
qed

section \<open>Failures of the extractor at the dispatcher\<close>

text \<open>
  Claim C1. A batch of two events, the first with an empty \<^verbatim>\<open>markets\<close> list, the second
  well formed: \<^verbatim>\<open>event.get("markets", [])[0]\<close> raises \<^verbatim>\<open>IndexError\<close> on the first, the
  loop ends there, no summary is produced for the second (which alone would be
  summarised), and the dispatcher answers with the error text only.
\<close>

theorem empty_markets_aborts_batch:
  "scrape_event example_repr event_empty_markets =
     Inl (Exception IndexError ''list index out of range'') \<and>
   scrape_event example_repr event_yes_no =
     Inr (JDict [(''title'', JStr ''Rain tomorrow?''),
                 (''url'', JStr ''https://polymarket.com/market/rain-tomorrow''),
                 (''outcomes'', JList
                    [JDict [(''outcome'', JStr ''Yes''), (''probability'', JStr ''0.4'')],
                     JDict [(''outcome'', JStr ''No''), (''probability'', JStr ''0.6'')]])]) \<and>
   extract_markets example_repr (page_with_events [event_empty_markets, event_yes_no]) =
     Inl (Exception IndexError ''list index out of range'') \<and>
   handle_call_tool
       (example_world\<lparr>json_loads := \<lambda>s. Inr (page_with_events [event_empty_markets, event_yes_no])\<rparr>)
       ''scrape-polymarket'' None =
     ([Request ''https://polymarket.com'' []],
      Inr [\<lparr>content_type = ''text'',
            content_text = ''Error scraping Polymarket: list index out of range''\<rparr>])"
proof -
  have bad: "scrape_event example_repr event_empty_markets =
     Inl (Exception IndexError ''list index out of range'')"
    by (simp add: scrape_event_def event_empty_markets_def)
  have good: "scrape_event example_repr event_yes_no =
     Inr (JDict [(''title'', JStr ''Rain tomorrow?''),
                 (''url'', JStr ''https://polymarket.com/market/rain-tomorrow''),
                 (''outcomes'', JList
                    [JDict [(''outcome'', JStr ''Yes''), (''probability'', JStr ''0.4'')],
                     JDict [(''outcome'', JStr ''No''), (''probability'', JStr ''0.6'')]])])"
    by (simp add: scrape_event_def event_yes_no_def outcome_probs_def BASE_URL_def
        upt_conv_Cons)
  have batch: "extract_markets example_repr (page_with_events [event_empty_markets, event_yes_no]) =
     Inl (Exception IndexError ''list index out of range'')"
    using bad by (simp add: extract_markets_def navigate_page_with_events)
  have "handle_call_tool
       (example_world\<lparr>json_loads := \<lambda>s. Inr (page_with_events [event_empty_markets, event_yes_no])\<rparr>)
       ''scrape-polymarket'' None =
     ([Request ''https://polymarket.com'' []],
      Inr [\<lparr>content_type = ''text'',
            content_text = ''Error scraping Polymarket: list index out of range''\<rparr>])"
    using batch
    by (simp add: handle_call_tool_def scrape_polymarket_def example_world_def
        text_content_def BASE_URL_def)
  with bad good batch show ?thesis by simp
qed

lemma scrape_without_script_tag:
  assumes "requests_get w = Inr resp"
    and "\<not> (400 \<le> status_code resp \<and> status_code resp < 600)"
    and "script_tag resp = None"
  shows "scrape_polymarket w =
    Inl (Exception AttributeError
      (sq @ ''NoneType'' @ sq @ '' object has no attribute '' @ sq @ ''string'' @ sq))"
  using assms by (simp add: scrape_polymarket_def)

lemma scrape_error_text:
  "scrape_polymarket w = Inl e \<Longrightarrow>
   handle_call_tool w ''scrape-polymarket'' arguments =
     ([Request BASE_URL []], Inr [text_content (''Error scraping Polymarket: '' @ str_exc e)])"
  by (simp add: handle_call_tool_def)

text \<open>
  Claim C4. Whatever exception \<^verbatim>\<open>scrape_polymarket\<close> raises, the dispatcher returns the
  single text item \<^verbatim>\<open>Error scraping Polymarket: <str(e)>\<close>; when the page has no
  \<^verbatim>\<open>__NEXT_DATA__\<close> element the exception is the \<^verbatim>\<open>AttributeError\<close> of \<^verbatim>\<open>None.string\<close>; and in
  every case the \<^verbatim>\<open>scrape-polymarket\<close> branch returns one text item, never an exception.
\<close>

theorem scrape_errors_become_text:
  "(scrape_polymarket w = Inl e \<longrightarrow>
      handle_call_tool w ''scrape-polymarket'' arguments =
        ([Request BASE_URL []],
         Inr [text_content (''Error scraping Polymarket: '' @ str_exc e)])) \<and>
   (requests_get w = Inr resp \<and> \<not> (400 \<le> status_code resp \<and> status_code resp < 600) \<and>
    script_tag resp = None \<longrightarrow>
      handle_call_tool w ''scrape-polymarket'' arguments =
        ([Request BASE_URL []],
         Inr [text_content (''Error scraping Polymarket: '' @
                sq @ ''NoneType'' @ sq @ '' object has no attribute '' @ sq @ ''string'' @ sq)])) \<and>
   (\<exists>t. snd (handle_call_tool w ''scrape-polymarket'' arguments) = Inr [t])"
proof (intro conjI impI)
  assume "scrape_polymarket w = Inl e"
  then show "handle_call_tool w ''scrape-polymarket'' arguments =
        ([Request BASE_URL []],
         Inr [text_content (''Error scraping Polymarket: '' @ str_exc e)])"
    by (rule scrape_error_text)
next
  assume a: "requests_get w = Inr resp \<and>
    \<not> (400 \<le> status_code resp \<and> status_code resp < 600) \<and> script_tag resp = None"
  then have "scrape_polymarket w =
    Inl (Exception AttributeError
      (sq @ ''NoneType'' @ sq @ '' object has no attribute '' @ sq @ ''string'' @ sq))"
    using scrape_without_script_tag [of w resp] by blast
  from scrape_error_text [OF this]
  show "handle_call_tool w ''scrape-polymarket'' arguments =
        ([Request BASE_URL []],
         Inr [text_content (''Error scraping Polymarket: '' @
                sq @ ''NoneType'' @ sq @ '' object has no attribute '' @ sq @ ''string'' @ sq)])"
    by simp
next
  show "\<exists>t. snd (handle_call_tool w ''scrape-polymarket'' arguments) = Inr [t]"
    by (simp add: handle_call_tool_def split: sum.splits)
qed

theorem scrape_errors_become_text_witness:
  "scrape_polymarket
      (example_world\<lparr>requests_get :=
         Inr \<lparr>status_code = 200, status_error = [], script_tag = None\<rparr>\<rparr>) =
     Inl (Exception AttributeError
       (sq @ ''NoneType'' @ sq @ '' object has no attribute '' @ sq @ ''string'' @ sq)) \<and>
   handle_call_tool
      (example_world\<lparr>requests_get :=
         Inr \<lparr>status_code = 200, status_error = [], script_tag = None\<rparr>\<rparr>)
      ''scrape-polymarket'' None =
     ([Request BASE_URL []],
      Inr [text_content (''Error scraping Polymarket: '' @
             sq @ ''NoneType'' @ sq @ '' object has no attribute '' @ sq @ ''string'' @ sq)])"
proof -
  have h: "scrape_polymarket
      (example_world\<lparr>requests_get :=
         Inr \<lparr>status_code = 200, status_error = [], script_tag = None\<rparr>\<rparr>) =
     Inl (Exception AttributeError
       (sq @ ''NoneType'' @ sq @ '' object has no attribute '' @ sq @ ''string'' @ sq))"
    by (simp add: scrape_polymarket_def)
  show ?thesis
    using h scrape_errors_become_text
      [of "example_world\<lparr>requests_get :=
             Inr \<lparr>status_code = 200, status_error = [], script_tag = None\<rparr>\<rparr>"
          "Exception AttributeError
            (sq @ ''NoneType'' @ sq @ '' object has no attribute '' @ sq @ ''string'' @ sq)"
          None
          "\<lparr>status_code = 200, status_error = [], script_tag = None\<rparr>"]
    by simp
qed

section \<open>The headline formatter\<close>

lemma format_nonempty_not_ok:
  assumes "kvs \<noteq> []" and "map_of kvs ''status'' \<noteq> Some (JStr ''ok'')"
  shows "format_news_headlines repr (JDict kvs) =
    ''NewsAPI error: '' @
      (case map_of kvs ''message'' of None \<Rightarrow> ''Unknown error'' | Some m \<Rightarrow> fmt repr m)"
  using assms
  by (auto simp: format_news_headlines_def format_news_headlines_try_def
      split: option.splits)

lemma format_empty_mapping:
  "format_news_headlines repr (JDict []) = ''No news data available.''"
  by (simp add: format_news_headlines_def format_news_headlines_try_def)

text \<open>
  Claim C5 as stated fails at the empty mapping: it has no \<^verbatim>\<open>status\<close>, so
  \<^verbatim>\<open>news_data.get("status") != "ok"\<close> holds, and no \<^verbatim>\<open>message\<close>, but the test
  \<^verbatim>\<open>not news_data\<close> of line 127 comes first and the result is \<^verbatim>\<open>No news data available.\<close>,
  not \<^verbatim>\<open>NewsAPI error: Unknown error\<close>.
\<close>

theorem format_empty_mapping_counterexample:
  "map_of ([] :: (string \<times> json) list) ''status'' \<noteq> Some (JStr ''ok'') \<and>
   map_of ([] :: (string \<times> json) list) ''message'' = None \<and>
   format_news_headlines example_repr (JDict []) = ''No news data available.'' \<and>
   format_news_headlines example_repr (JDict []) \<noteq> ''NewsAPI error: Unknown error''"
  by (simp add: format_empty_mapping)

text \<open>
  Claim C5, as amended. For every non-empty response mapping: if its \<^verbatim>\<open>status\<close> is not
  \<^verbatim>\<open>"ok"\<close>, a missing \<^verbatim>\<open>status\<close> included, the result is \<^verbatim>\<open>NewsAPI error: \<close> followed by the
  message, or by \<^verbatim>\<open>Unknown error\<close> when there is no message; and if its \<^verbatim>\<open>status\<close> is
  \<^verbatim>\<open>"ok"\<close> and its \<^verbatim>\<open>articles\<close> is the empty list the result is \<^verbatim>\<open>No news articles found.\<close>
\<close>

theorem format_error_and_empty:
  "(kvs \<noteq> [] \<and> map_of kvs ''status'' \<noteq> Some (JStr ''ok'') \<longrightarrow>
      format_news_headlines repr (JDict kvs) =
        ''NewsAPI error: '' @
          (case map_of kvs ''message'' of None \<Rightarrow> ''Unknown error'' | Some m \<Rightarrow> fmt repr m)) \<and>
   (map_of kvs ''status'' = Some (JStr ''ok'') \<and> map_of kvs ''articles'' = Some (JList []) \<longrightarrow>
      format_news_headlines repr (JDict kvs) = ''No news articles found.'')"
proof (intro conjI impI)
  assume "kvs \<noteq> [] \<and> map_of kvs ''status'' \<noteq> Some (JStr ''ok'')"
  then show "format_news_headlines repr (JDict kvs) =
        ''NewsAPI error: '' @
          (case map_of kvs ''message'' of None \<Rightarrow> ''Unknown error'' | Some m \<Rightarrow> fmt repr m)"
    using format_nonempty_not_ok [of kvs repr] by blast
next
  assume a: "map_of kvs ''status'' = Some (JStr ''ok'') \<and>
    map_of kvs ''articles'' = Some (JList [])"
  then have "kvs \<noteq> []" by auto
  with a show "format_news_headlines repr (JDict kvs) = ''No news articles found.''"
    by (simp add: format_news_headlines_def format_news_headlines_try_def)
qed

theorem format_error_and_empty_witness:
  "format_news_headlines example_repr
     (JDict [(''status'', JStr ''error''), (''message'', JStr ''rate limited'')]) =
     ''NewsAPI error: rate limited'' \<and>
   format_news_headlines example_repr
     (JDict [(''status'', JStr ''error'')]) = ''NewsAPI error: Unknown error'' \<and>
   format_news_headlines example_repr
     (JDict [(''message'', JStr ''no status here'')]) = ''NewsAPI error: no status here'' \<and>
   format_news_headlines example_repr
     (JDict [(''status'', JStr ''ok''), (''articles'', JList [])]) =
     ''No news articles found.''"
  using
    format_error_and_empty
      [of "[(''status'', JStr ''error''), (''message'', JStr ''rate limited'')]" example_repr]
    format_error_and_empty [of "[(''status'', JStr ''error'')]" example_repr]
    format_error_and_empty [of "[(''message'', JStr ''no status here'')]" example_repr]
    format_error_and_empty [of "[(''status'', JStr ''ok''), (''articles'', JList [])]"
      example_repr]
  by simp

text \<open>
  Claim C8. The formatter returns a string on every input: when the body of its \<^verbatim>\<open>try\<close>
  block raises \<open>e\<close> the result is \<^verbatim>\<open>Error formatting news: \<close> followed by \<^verbatim>\<open>str(e)\<close>, and
  otherwise it is what the body returns. The witness is a response whose articles list
  holds a string, on which \<^verbatim>\<open>article.get\<close> raises.
\<close>

theorem format_never_raises:
  "(format_news_headlines_try repr news_data = Inl e \<longrightarrow>
      format_news_headlines repr news_data = ''Error formatting news: '' @ str_exc e) \<and>
   (format_news_headlines_try repr news_data = Inr s \<longrightarrow>
      format_news_headlines repr news_data = s)"
  by (simp add: format_news_headlines_def)

theorem format_never_raises_witness:
  "format_news_headlines_try example_repr
     (JDict [(''status'', JStr ''ok''), (''articles'', JList [JStr ''x''])]) =
     Inl (Exception AttributeError
       (sq @ ''str'' @ sq @ '' object has no attribute '' @ sq @ ''get'' @ sq)) \<and>
   format_news_headlines example_repr
     (JDict [(''status'', JStr ''ok''), (''articles'', JList [JStr ''x''])]) =
     ''Error formatting news: '' @ sq @ ''str'' @ sq @ '' object has no attribute '' @ sq @ ''get'' @ sq"
proof -
  have h: "format_news_headlines_try example_repr
     (JDict [(''status'', JStr ''ok''), (''articles'', JList [JStr ''x''])]) =
     Inl (Exception AttributeError
       (sq @ ''str'' @ sq @ '' object has no attribute '' @ sq @ ''get'' @ sq))"
    by (simp add: format_news_headlines_try_def format_article_def)
  show ?thesis
    using h format_never_raises
      [of example_repr "JDict [(''status'', JStr ''ok''), (''articles'', JList [JStr ''x''])]"
          "Exception AttributeError
            (sq @ ''str'' @ sq @ '' object has no attribute '' @ sq @ ''get'' @ sq)"]
    by simp
qed

end
